theory Spec2Isabelle
  imports Main
begin

section \<open>JavaScript values and the Fetch interface\<close>

text \<open>
  The values that \<open>response.json()\<close> and \<open>JSON.parse\<close> hand to the code, together with
  \<open>undefined\<close> and \<open>NaN\<close>, which the code produces itself by reading absent properties
  and by arithmetic on them. Numbers are integers here (status codes, second counts and
  millisecond clocks are). An object is its list of properties; the first binding of a
  name is the one that is read.
\<close>

datatype jsval =
    JUndefined
  | JNull
  | JBool bool
  | JNum int
  | JNaN
  | JStr string
  | JArr "jsval list"
  | JObj "(string \<times> jsval) list"

text \<open>An exception: \<open>throw new Error(msg)\<close>, a \<open>TypeError\<close>, or a rejected promise.\<close>

datatype error = Error string

text \<open>The truthiness test of \<open>if (v)\<close>, \<open>!v\<close>, \<open>a || b\<close> and \<open>a && b\<close>.\<close>

fun truthy :: "jsval \<Rightarrow> bool" where
  "truthy JUndefined = False"
| "truthy JNull = False"
| "truthy (JBool b) = b"
| "truthy (JNum n) = (n \<noteq> 0)"
| "truthy JNaN = False"
| "truthy (JStr s) = (s \<noteq> [])"
| "truthy (JArr vs) = True"
| "truthy (JObj kvs) = True"

text \<open>
  Property access \<open>v.name\<close> for the data properties the code reads: a \<open>TypeError\<close> on
  \<open>null\<close> and \<open>undefined\<close> (its message is the runtime's), \<open>undefined\<close> for a
  property that is not there.
\<close>

fun get_prop :: "jsval \<Rightarrow> string \<Rightarrow> error + jsval" where
  "get_prop JUndefined k = Inl (Error ''TypeError'')"
| "get_prop JNull k = Inl (Error ''TypeError'')"
| "get_prop (JObj kvs) k = Inr (case map_of kvs k of None \<Rightarrow> JUndefined | Some v \<Rightarrow> v)"
| "get_prop v k = Inr JUndefined"

text \<open>Decimal digits of a number, as a template literal prints them.\<close>

fun digits :: "nat \<Rightarrow> nat \<Rightarrow> string" where
  "digits 0 n = []"
| "digits (Suc fuel) n =
     (if n < 10 then [''0123456789'' ! n]
      else digits fuel (n div 10) @ [''0123456789'' ! (n mod 10)])"

definition show_nat :: "nat \<Rightarrow> string" where
  "show_nat n = digits (Suc n) n"

definition show_int :: "int \<Rightarrow> string" where
  "show_int i = (if i < 0 then CHR ''-'' # show_nat (nat (- i)) else show_nat (nat i))"

text \<open>\<open>xs.join(sep)\<close> on strings.\<close>

fun join :: "string \<Rightarrow> string list \<Rightarrow> string" where
  "join sep [] = []"
| "join sep [x] = x"
| "join sep (x # y # ys) = x @ sep @ join sep (y # ys)"

text \<open>
  \<open>String(v)\<close>, the conversion a template literal applies: an array prints its elements
  joined by commas, with \<open>null\<close> and \<open>undefined\<close> elements empty. A number prints all its
  digits, as JavaScript does below \<open>10\<^sup>2\<^sup>1\<close>.
\<close>

fun to_string :: "jsval \<Rightarrow> string" where
  "to_string JUndefined = ''undefined''"
| "to_string JNull = ''null''"
| "to_string (JBool b) = (if b then ''true'' else ''false'')"
| "to_string (JNum n) = show_int n"
| "to_string JNaN = ''NaN''"
| "to_string (JStr s) = s"
| "to_string (JArr vs) =
     join '','' (map (\<lambda>v. if v = JUndefined \<or> v = JNull then [] else to_string v) vs)"
| "to_string (JObj kvs) = ''[object Object]''"

text \<open>
  A request as \<open>fetch(url, init)\<close> sends it. The body is absent, a string passed through,
  or \<open>JSON.stringify\<close> of a value.
\<close>

datatype payload = NoBody | Text string | Stringify jsval

record request =
  req_url :: string
  req_method :: string
  req_headers :: "(string \<times> string) list"
  req_body :: payload

text \<open>
  A response as \<open>fetch\<close> resolves to it. \<open>content_type\<close> is
  \<open>response.headers.get("content-type")\<close>, \<open>None\<close> for \<open>null\<close>. \<open>body_text\<close> and
  \<open>body_json\<close> are the two readings of the body, \<open>response.text()\<close> and
  \<open>response.json()\<close> (which is \<open>JSON.parse\<close> of the text); \<open>Inl\<close> is a read that throws
  (for \<open>body_json\<close>, also a body that does not parse). The type of the parsed value is
  the one the caller declares for it.
\<close>

record 'j response =
  status :: nat
  statusText :: string
  content_type :: "string option"
  body_text :: "error + string"
  body_json :: "error + 'j"

definition ok :: "('j, 'x) response_scheme \<Rightarrow> bool" where
  "ok r = (200 \<le> status r \<and> status r \<le> 299)"

text \<open>
  The network as the code sees it: what a request is answered with, which may depend on
  the requests made before. \<open>Inl\<close> is a \<open>fetch\<close> that throws. \<open>fetch\<close> records the request.
\<close>

type_synonym 'j network = "request list \<Rightarrow> request \<Rightarrow> error + 'j response"

definition fetch :: "'j network \<Rightarrow> request list \<Rightarrow> request \<Rightarrow> (error + 'j response) \<times> request list" where
  "fetch net log req = (net log req, log @ [req])"

section \<open>AnthropicAuth (lib/anthropic-auth)\<close>

definition CLIENT_ID :: string where
  "CLIENT_ID = ''9d1c250a-e61b-44d9-88ed-5944d1962f5e''"

definition chars :: string where
  "chars = ''ABCDEFGHIJKLMNOPQRSTUVWXYZabcdefghijklmnopqrstuvwxyz0123456789-._~''"

text \<open>\<open>s.charAt(i)\<close>: the empty string out of range.\<close>

definition charAt :: "string \<Rightarrow> nat \<Rightarrow> string" where
  "charAt s i = (if i < length s then [s ! i] else [])"

text \<open>
  \<open>generateRandomString\<close>. \<open>rnd i\<close> is the value of
  \<open>Math.floor(Math.random() * chars.length)\<close> in round \<open>i\<close> of the loop; each round appends
  one character.
\<close>

primrec generateRandomString :: "(nat \<Rightarrow> nat) \<Rightarrow> nat \<Rightarrow> string" where
  "generateRandomString rnd 0 = []"
| "generateRandomString rnd (Suc i) = generateRandomString rnd i @ charAt chars (rnd i)"

record PKCE =
  pkce_verifier :: string
  pkce_challenge :: string
  pkce_method :: string

definition generatePKCEFallback :: "(nat \<Rightarrow> nat) \<Rightarrow> PKCE" where
  "generatePKCEFallback rnd =
     (let codeVerifier = generateRandomString rnd 128
      in \<lparr>pkce_verifier = codeVerifier, pkce_challenge = codeVerifier, pkce_method = ''plain''\<rparr>)"

text \<open>
  \<open>safePKCEGenerate\<close>. \<open>generatePKCE\<close> is the library call's outcome: the pair it returns, or
  what it throws where \<open>crypto.subtle\<close> is missing.
\<close>

definition safePKCEGenerate :: "error + PKCE \<Rightarrow> (nat \<Rightarrow> nat) \<Rightarrow> PKCE" where
  "safePKCEGenerate generatePKCE rnd =
     (case generatePKCE of Inr pkce \<Rightarrow> pkce | Inl e \<Rightarrow> generatePKCEFallback rnd)"

text \<open>
  A \<open>URL\<close> object: everything before the query, and \<open>searchParams\<close> in order.
  \<open>searchParams.set\<close> overwrites the first entry of the name and drops the others, or
  appends.
\<close>

record URL =
  origin_path :: string
  searchParams :: "(string \<times> string) list"

fun params_set :: "string \<Rightarrow> string \<Rightarrow> (string \<times> string) list \<Rightarrow> (string \<times> string) list" where
  "params_set k v [] = [(k, v)]"
| "params_set k v ((k', v') # ps) =
     (if k' = k then (k, v) # filter (\<lambda>p. fst p \<noteq> k) ps else (k', v') # params_set k v ps)"

definition searchParams_set :: "string \<Rightarrow> string \<Rightarrow> URL \<Rightarrow> URL" where
  "searchParams_set k v u = u\<lparr>searchParams := params_set k v (searchParams u)\<rparr>"

definition searchParams_get :: "URL \<Rightarrow> string \<Rightarrow> string option" where
  "searchParams_get u k = map_of (searchParams u) k"

text \<open>\<open>AuthorizeResult\<close>; \<open>auth_url\<close> is the URL object that \<open>url.toString()\<close> prints.\<close>

record AuthorizeResult =
  auth_url :: URL
  auth_verifier :: string

definition getAuthorizationUrl :: "string \<Rightarrow> error + PKCE \<Rightarrow> (nat \<Rightarrow> nat) \<Rightarrow> AuthorizeResult" where
  "getAuthorizationUrl method generatePKCE rnd =
     (let mode = (if method = ''claude-pro'' then ''max'' else ''console'');
          pkce = safePKCEGenerate generatePKCE rnd;
          url0 = \<lparr>origin_path = ''https://''
                    @ (if mode = ''console'' then ''console.anthropic.com'' else ''claude.ai'')
                    @ ''/oauth/authorize'',
                  searchParams = []\<rparr>;
          url1 = searchParams_set ''code'' ''true'' url0;
          url2 = searchParams_set ''client_id'' CLIENT_ID url1;
          url3 = searchParams_set ''response_type'' ''code'' url2;
          url4 = searchParams_set ''redirect_uri''
                   ''https://console.anthropic.com/oauth/code/callback'' url3;
          url5 = searchParams_set ''scope''
                   ''org:create_api_key user:profile user:inference'' url4;
          url6 = searchParams_set ''code_challenge'' (pkce_challenge pkce) url5;
          url7 = searchParams_set ''code_challenge_method'' ''S256'' url6;
          url8 = searchParams_set ''state'' (pkce_verifier pkce) url7
      in \<lparr>auth_url = url8, auth_verifier = pkce_verifier pkce\<rparr>)"

text \<open>\<open>ExchangeResult\<close>; a field that is not set reads \<open>undefined\<close>.\<close>

datatype exchange_type = Success | Failed

record ExchangeResult =
  ex_type :: exchange_type
  refresh :: jsval
  access :: jsval
  expires :: jsval
  key :: jsval

definition failed_result :: ExchangeResult where
  "failed_result =
     \<lparr>ex_type = Failed, refresh = JUndefined, access = JUndefined, expires = JUndefined,
      key = JUndefined\<rparr>"

text \<open>\<open>code.split("#")\<close>: never empty.\<close>

fun split_on :: "char \<Rightarrow> string \<Rightarrow> string list" where
  "split_on c [] = [[]]"
| "split_on c (x # xs) =
     (if x = c then [] # split_on c xs
      else case split_on c xs of
             [] \<Rightarrow> [[x]]
           | w # ws \<Rightarrow> (x # w) # ws)"

text \<open>\<open>splits[i]\<close>: \<open>undefined\<close> out of range.\<close>

definition at_index :: "string list \<Rightarrow> nat \<Rightarrow> jsval" where
  "at_index xs i = (if i < length xs then JStr (xs ! i) else JUndefined)"

definition token_url :: string where
  "token_url = ''/api/anthropic/oauth/token''"

definition api_key_url :: string where
  "api_key_url = ''/api/anthropic/oauth/api-key''"

definition token_request :: "string \<Rightarrow> string \<Rightarrow> request" where
  "token_request code verifier =
     (let splits = split_on CHR ''#'' code
      in \<lparr>req_url = token_url, req_method = ''POST'',
          req_headers = [(''Content-Type'', ''application/json'')],
          req_body = Stringify (JObj
            [(''code'', at_index splits 0),
             (''state'', at_index splits 1),
             (''grant_type'', JStr ''authorization_code''),
             (''client_id'', JStr CLIENT_ID),
             (''redirect_uri'', JStr ''https://console.anthropic.com/oauth/code/callback''),
             (''code_verifier'', JStr verifier)])\<rparr>)"

definition api_key_request :: "jsval \<Rightarrow> request" where
  "api_key_request access_token =
     \<lparr>req_url = api_key_url, req_method = ''POST'',
      req_headers = [(''Content-Type'', ''application/json'')],
      req_body = Stringify (JObj [(''access_token'', access_token)])\<rparr>"

text \<open>
  \<open>Date.now() + json.expires_in * 1000\<close>. \<open>ToNumber\<close> is the runtime's conversion of the
  operand to a number, \<open>None\<close> for \<open>NaN\<close>. The arithmetic is exact, as the runtime's is
  while the result stays below \<open>2\<^sup>5\<^sup>3\<close>.
\<close>

definition expires_at :: "(jsval \<Rightarrow> int option) \<Rightarrow> int \<Rightarrow> jsval \<Rightarrow> jsval" where
  "expires_at ToNumber now expires_in =
     (case ToNumber expires_in of None \<Rightarrow> JNaN | Some n \<Rightarrow> JNum (now + n * 1000))"

text \<open>
  \<open>exchangeCode\<close>. Every \<open>Inl\<close> below is an exception inside the \<open>try\<close>, which the \<open>catch\<close>
  turns into the failed result.
\<close>

definition exchangeCode ::
  "jsval network \<Rightarrow> request list \<Rightarrow> (jsval \<Rightarrow> int option) \<Rightarrow> int \<Rightarrow>
   string \<Rightarrow> string \<Rightarrow> string \<Rightarrow> ExchangeResult \<times> request list" where
  "exchangeCode net log ToNumber now code verifier method =
     (case fetch net log (token_request code verifier) of
        (Inl e, log1) \<Rightarrow> (failed_result, log1)
      | (Inr response, log1) \<Rightarrow>
          if \<not> ok response then (failed_result, log1)
          else
            (case body_json response of
               Inl e \<Rightarrow> (failed_result, log1)
             | Inr json \<Rightarrow>
                 if method = ''claude-pro'' then
                   (case (get_prop json ''refresh_token'', get_prop json ''access_token'',
                          get_prop json ''expires_in'') of
                      (Inr refresh_token, Inr access_token, Inr expires_in) \<Rightarrow>
                        (\<lparr>ex_type = Success, refresh = refresh_token, access = access_token,
                          expires = expires_at ToNumber now expires_in, key = JUndefined\<rparr>,
                         log1)
                    | _ \<Rightarrow> (failed_result, log1))
                 else if method = ''api-key'' then
                   (case get_prop json ''access_token'' of
                      Inl e \<Rightarrow> (failed_result, log1)
                    | Inr access_token \<Rightarrow>
                        (case fetch net log1 (api_key_request access_token) of
                           (Inl e, log2) \<Rightarrow> (failed_result, log2)
                         | (Inr apiKeyResponse, log2) \<Rightarrow>
                             if \<not> ok apiKeyResponse then (failed_result, log2)
                             else
                               (case body_json apiKeyResponse of
                                  Inl e \<Rightarrow> (failed_result, log2)
                                | Inr apiKeyResult \<Rightarrow>
                                    (case get_prop apiKeyResult ''raw_key'' of
                                       Inl e \<Rightarrow> (failed_result, log2)
                                     | Inr raw_key \<Rightarrow>
                                         (\<lparr>ex_type = Success, refresh = JUndefined,
                                           access = JUndefined, expires = JUndefined,
                                           key = raw_key\<rparr>, log2)))))
                 else (failed_result, log1)))"

definition storeCredentials_request :: "jsval \<Rightarrow> request" where
  "storeCredentials_request credentials =
     \<lparr>req_url = ''/api/opencode/auth/anthropic'', req_method = ''PUT'',
      req_headers = [(''Content-Type'', ''application/json'')],
      req_body = Stringify credentials\<rparr>"

definition storeCredentials ::
  "jsval network \<Rightarrow> request list \<Rightarrow> ExchangeResult \<Rightarrow> bool \<times> request list" where
  "storeCredentials net log result =
     (if ex_type result = Failed then (False, log)
      else
        let credentials =
          (if truthy (key result)
           then Some (JObj [(''type'', JStr ''api''), (''key'', key result)])
           else if truthy (refresh result) \<and> truthy (access result) \<and> truthy (expires result)
           then Some (JObj [(''type'', JStr ''oauth''), (''refresh'', refresh result),
                            (''access'', access result), (''expires'', expires result)])
           else None)
        in case credentials of
             None \<Rightarrow> (False, log)
           | Some c \<Rightarrow>
               (case fetch net log (storeCredentials_request c) of
                  (Inl e, log') \<Rightarrow> (False, log')
                | (Inr response, log') \<Rightarrow> if \<not> ok response then (False, log') else (True, log')))"

definition completeOAuthFlow ::
  "jsval network \<Rightarrow> request list \<Rightarrow> (jsval \<Rightarrow> int option) \<Rightarrow> int \<Rightarrow>
   string \<Rightarrow> string \<Rightarrow> string \<Rightarrow> bool \<times> request list" where
  "completeOAuthFlow net log ToNumber now code verifier method =
     (case exchangeCode net log ToNumber now code verifier method of
        (exchangeResult, log') \<Rightarrow>
          if ex_type exchangeResult = Failed then (False, log')
          else storeCredentials net log' exchangeResult)"

section \<open>AuthService (lib/auth-service)\<close>

record AuthResult =
  success :: bool
  authUrl :: "URL option"
  instructions :: "string option"
  message :: "string option"
  error :: "string option"

definition AuthResult_ok :: "string \<Rightarrow> AuthResult" where
  "AuthResult_ok msg =
     \<lparr>success = True, authUrl = None, instructions = None, message = Some msg, error = None\<rparr>"

definition AuthResult_error :: "string \<Rightarrow> AuthResult" where
  "AuthResult_error msg =
     \<lparr>success = False, authUrl = None, instructions = None, message = None, error = Some msg\<rparr>"

text \<open>\<open>sessionStorage\<close>: \<open>getItem\<close> is application, \<open>None\<close> is \<open>null\<close>.\<close>

type_synonym storage = "string \<rightharpoonup> string"

definition setItem :: "string \<Rightarrow> string \<Rightarrow> storage \<Rightarrow> storage" where
  "setItem k v store = store(k \<mapsto> v)"

definition removeItem :: "string \<Rightarrow> storage \<Rightarrow> storage" where
  "removeItem k store = store(k := None)"

definition startAnthropicAuth ::
  "storage \<Rightarrow> string \<Rightarrow> error + PKCE \<Rightarrow> (nat \<Rightarrow> nat) \<Rightarrow> AuthResult \<times> storage" where
  "startAnthropicAuth store method generatePKCE rnd =
     (let authData = getAuthorizationUrl method generatePKCE rnd;
          store1 = setItem ''anthropic_verifier'' (auth_verifier authData) store;
          store2 = setItem ''anthropic_method'' method store1
      in (\<lparr>success = True, authUrl = Some (auth_url authData),
           instructions = Some (if method = ''claude-pro''
                                then ''Log in with your Claude Pro/Max account''
                                else ''Log in to create an API key''),
           message = None, error = None\<rparr>, store2))"

text \<open>
  \<open>completeAnthropicAuth\<close>: the result, \<open>sessionStorage\<close> afterwards, and the requests made.
  An absent or empty item is falsy.
\<close>

definition completeAnthropicAuth ::
  "storage \<Rightarrow> jsval network \<Rightarrow> request list \<Rightarrow> (jsval \<Rightarrow> int option) \<Rightarrow> int \<Rightarrow>
   string \<Rightarrow> AuthResult \<times> storage \<times> request list" where
  "completeAnthropicAuth store net log ToNumber now authCode =
     (case (store ''anthropic_verifier'', store ''anthropic_method'') of
        (Some verifier, Some method) \<Rightarrow>
          if verifier = [] \<or> method = []
          then (AuthResult_error
                  ''Missing authentication data. Please restart the authentication process.'',
                store, log)
          else
            (case completeOAuthFlow net log ToNumber now authCode verifier method of
               (True, log') \<Rightarrow>
                 (AuthResult_ok ''Successfully authenticated with Anthropic Claude'',
                  removeItem ''anthropic_method'' (removeItem ''anthropic_verifier'' store),
                  log')
             | (False, log') \<Rightarrow>
                 (AuthResult_error ''Failed to complete authentication'', store, log'))
      | _ \<Rightarrow>
          (AuthResult_error
             ''Missing authentication data. Please restart the authentication process.'',
           store, log))"

text \<open>\<open>handleCancelAuth\<close> of the login form: the part that touches \<open>sessionStorage\<close>.\<close>

definition handleCancelAuth :: "storage \<Rightarrow> storage" where
  "handleCancelAuth store = removeItem ''anthropic_method'' (removeItem ''anthropic_verifier'' store)"

definition clearAuth_request :: "string \<Rightarrow> request" where
  "clearAuth_request providerId =
     \<lparr>req_url = ''/api/opencode/auth/'' @ providerId, req_method = ''DELETE'',
      req_headers = [(''Content-Type'', ''application/json'')], req_body = NoBody\<rparr>"

text \<open>\<open>clearAuth\<close>: one \<open>fetch\<close>; every failure is caught and reported in the result.\<close>

definition clearAuth :: "'j network \<Rightarrow> request list \<Rightarrow> string \<Rightarrow> AuthResult \<times> request list" where
  "clearAuth net log providerId =
     (case fetch net log (clearAuth_request providerId) of
        (Inl e, log') \<Rightarrow>
          (AuthResult_error (''Failed to clear authentication for '' @ providerId), log')
      | (Inr response, log') \<Rightarrow>
          if \<not> ok response
          then (AuthResult_error (''Failed to clear authentication for '' @ providerId), log')
          else (AuthResult_ok (''Successfully cleared authentication for '' @ providerId), log'))"

section \<open>AuthStatus (components/AuthStatus)\<close>

record Provider =
  provider_id :: string
  name :: string
  models :: "string list"
  authenticated :: bool
  authType :: "string option"

text \<open>\<open>ProvidersResponse\<close>; \<open>providers\<close> is \<open>None\<close> when the field is missing or \<open>null\<close>.\<close>

record ProvidersResponse =
  providers :: "Provider list option"
  default :: "(string \<times> string) list"

text \<open>The component's state: the \<open>useState\<close> cells \<open>providers\<close>, \<open>loading\<close>, \<open>error\<close>.\<close>

record AuthStatus =
  st_providers :: "Provider list"
  st_loading :: bool
  st_error :: "string option"

definition AuthStatus_init :: AuthStatus where
  "AuthStatus_init = \<lparr>st_providers = [], st_loading = True, st_error = None\<rparr>"

definition providers_request :: request where
  "providers_request =
     \<lparr>req_url = ''/api/opencode/config/providers'', req_method = ''GET'',
      req_headers = [], req_body = NoBody\<rparr>"

text \<open>
  \<open>fetchProviders\<close>: \<open>try\<close> sets the list, \<open>catch\<close> sets the error to the message of what
  was thrown, \<open>finally\<close> clears \<open>loading\<close>.
\<close>

definition fetchProviders ::
  "ProvidersResponse network \<Rightarrow> request list \<Rightarrow> AuthStatus \<Rightarrow> AuthStatus \<times> request list" where
  "fetchProviders net log st =
     (let st1 = st\<lparr>st_loading := True, st_error := None\<rparr> in
      case fetch net log providers_request of
        (Inl (Error msg), log') \<Rightarrow> (st1\<lparr>st_error := Some msg, st_loading := False\<rparr>, log')
      | (Inr response, log') \<Rightarrow>
          if \<not> ok response
          then (st1\<lparr>st_error := Some (''HTTP error! status: '' @ show_nat (status response)),
                    st_loading := False\<rparr>, log')
          else (case body_json response of
                  Inl (Error msg) \<Rightarrow> (st1\<lparr>st_error := Some msg, st_loading := False\<rparr>, log')
                | Inr data \<Rightarrow>
                    (st1\<lparr>st_providers := (case providers data of None \<Rightarrow> [] | Some ps \<Rightarrow> ps),
                         st_loading := False\<rparr>, log')))"

text \<open>
  \<open>handleClearAuth\<close> of the component that shows the server's provider list:
  \<open>clearAuth\<close> does not throw, so \<open>fetchProviders\<close> always follows.
\<close>

definition handleClearAuth ::
  "ProvidersResponse network \<Rightarrow> request list \<Rightarrow> AuthStatus \<Rightarrow> string \<Rightarrow> AuthStatus \<times> request list" where
  "handleClearAuth net log st providerId =
     (case clearAuth net log providerId of
        (result, log') \<Rightarrow> fetchProviders net log' st)"

text \<open>
  \<open>handleClearAuth\<close> of the component over the static list \<open>AVAILABLE_PROVIDERS\<close>: it has
  no provider state and only writes to the console.
\<close>

definition handleClearAuth_static :: "'j network \<Rightarrow> request list \<Rightarrow> string \<Rightarrow> request list" where
  "handleClearAuth_static net log providerId =
     (case clearAuth net log providerId of (result, log') \<Rightarrow> log')"

text \<open>What the component renders: the spinner, the error card, or the status card.\<close>

record row =
  row_name :: string
  row_models :: nat
  row_status :: string
  row_authType :: "string option"
  row_button :: string

datatype view =
    LoadingView
  | ErrorView string
  | StatusView (authenticatedCount: nat) (totalCount: nat) (rows: "row list")

definition getStatusText :: "bool \<Rightarrow> string" where
  "getStatusText a = (if a then ''Authenticated'' else ''Not Authenticated'')"

definition render_row :: "Provider \<Rightarrow> row" where
  "render_row p =
     \<lparr>row_name = name p, row_models = length (models p),
      row_status = getStatusText (authenticated p), row_authType = authType p,
      row_button = (if \<not> authenticated p then ''Authenticate'' else ''Clear'')\<rparr>"

definition status_card :: "AuthStatus \<Rightarrow> view" where
  "status_card st =
     StatusView (length (filter authenticated (st_providers st)))
                (length (st_providers st))
                (map render_row (st_providers st))"

text \<open>\<open>if (error)\<close> is falsy for \<open>null\<close> and for the empty message.\<close>

definition render :: "AuthStatus \<Rightarrow> view" where
  "render st =
     (if st_loading st then LoadingView
      else case st_error st of
        Some e \<Rightarrow> if e \<noteq> [] then ErrorView e else status_card st
      | None \<Rightarrow> status_card st)"

section \<open>The relay (index.tsx)\<close>

text \<open>
  Header names are case-insensitive: a \<open>Headers\<close> object keeps them in lower case, and
  \<open>get\<close> and \<open>set\<close> lower the name they are given.
\<close>

definition lower_char :: "char \<Rightarrow> char" where
  "lower_char c =
     (case map_of (zip ''ABCDEFGHIJKLMNOPQRSTUVWXYZ'' ''abcdefghijklmnopqrstuvwxyz'') c of
        None \<Rightarrow> c
      | Some l \<Rightarrow> l)"

definition lower :: "string \<Rightarrow> string" where
  "lower s = map lower_char s"

definition Headers :: "(string \<times> string) list \<Rightarrow> (string \<times> string) list" where
  "Headers init = map (\<lambda>(k, v). (lower k, v)) init"

definition Headers_get :: "(string \<times> string) list \<Rightarrow> string \<Rightarrow> string option" where
  "Headers_get hs k = map_of hs (lower k)"

definition Headers_set :: "string \<Rightarrow> string \<Rightarrow> (string \<times> string) list \<Rightarrow> (string \<times> string) list" where
  "Headers_set k v hs = params_set (lower k) v hs"

text \<open>
  The request a route handler receives: \<open>req.method\<close>, the \<open>pathname\<close> and \<open>search\<close> of
  \<open>new URL(req.url)\<close>, \<open>req.headers.get("content-type")\<close>, the two readings of the body
  \<open>req.text()\<close> and \<open>req.json()\<close>, and \<open>req.params.id\<close>.
\<close>

record incoming =
  in_method :: string
  in_pathname :: string
  in_search :: string
  in_content_type :: "string option"
  in_text :: "error + string"
  in_json :: "error + jsval"
  in_id :: string

text \<open>
  The response a handler returns: the status, the headers and the body it passes to
  \<open>new Response\<close> or \<open>Response.json\<close>. The content type that the runtime adds by itself
  to a response built without one is not part of the record. \<open>Stream\<close> is the body of an
  upstream response handed on as it is.
\<close>

datatype reply_body = Empty | Body string | Json jsval | Stream "error + string"

record reply =
  reply_status :: nat
  reply_headers :: "(string \<times> string) list"
  reply_body :: reply_body

text \<open>
  \<open>new Response(body, { status, headers })\<close> throws a \<open>RangeError\<close> for a status outside
  200..599.
\<close>

definition Response_new :: "reply_body \<Rightarrow> nat \<Rightarrow> (string \<times> string) list \<Rightarrow> error + reply" where
  "Response_new b s hs =
     (if s < 200 \<or> 599 < s then Inl (Error ''RangeError'')
      else Inr \<lparr>reply_status = s, reply_headers = hs, reply_body = b\<rparr>)"

text \<open>
  \<open>try { return new Response(...) } catch { return failed }\<close>: what a handler returns
  when the construction is the last step inside its \<open>try\<close>.
\<close>

definition caught :: "error + reply \<Rightarrow> reply \<Rightarrow> reply" where
  "caught built failed = (case built of Inl e \<Rightarrow> failed | Inr r \<Rightarrow> r)"

text \<open>\<open>Response.json(value, { status, headers })\<close>, called with 500 and 502 only.\<close>

definition Response_json :: "jsval \<Rightarrow> nat \<Rightarrow> (string \<times> string) list \<Rightarrow> reply" where
  "Response_json v s hs = \<lparr>reply_status = s, reply_headers = hs, reply_body = Json v\<rparr>"

text \<open>The relay's own \<open>fetch\<close>: what the upstream answers to a request, \<open>Inl\<close> when it throws.\<close>

type_synonym 'j upstream = "request \<Rightarrow> error + 'j response"

definition error_json :: "string \<Rightarrow> jsval" where
  "error_json msg = JObj [(''error'', JStr msg)]"

definition allow_origin :: "(string \<times> string) list" where
  "allow_origin = Headers [(''Access-Control-Allow-Origin'', ''*'')]"

definition oauth_headers :: "(string \<times> string) list" where
  "oauth_headers = Headers
     [(''Content-Type'', ''application/json''),
      (''Access-Control-Allow-Origin'', ''*''),
      (''Access-Control-Allow-Methods'', ''POST, OPTIONS''),
      (''Access-Control-Allow-Headers'', ''Content-Type, Authorization'')]"

definition oauth_options_headers :: "(string \<times> string) list" where
  "oauth_options_headers = Headers
     [(''Access-Control-Allow-Origin'', ''*''),
      (''Access-Control-Allow-Methods'', ''POST, OPTIONS''),
      (''Access-Control-Allow-Headers'', ''Content-Type, Authorization'')]"

definition cors_headers :: "(string \<times> string) list" where
  "cors_headers = Headers
     [(''Access-Control-Allow-Origin'', ''*''),
      (''Access-Control-Allow-Methods'', ''GET, POST, PUT, DELETE, OPTIONS''),
      (''Access-Control-Allow-Headers'', ''Content-Type, Authorization'')]"

subsection \<open>/api/anthropic/oauth/token\<close>

definition oauth_token_POST :: "'j upstream \<Rightarrow> incoming \<Rightarrow> reply" where
  "oauth_token_POST up req =
     (let failed = Response_json (error_json ''Failed to exchange OAuth token'') 500 allow_origin in
      case in_json req of
        Inl e \<Rightarrow> failed
      | Inr body \<Rightarrow>
          (case up \<lparr>req_url = ''https://console.anthropic.com/v1/oauth/token'',
                    req_method = ''POST'',
                    req_headers = [(''Content-Type'', ''application/json'')],
                    req_body = Stringify body\<rparr> of
             Inl e \<Rightarrow> failed
           | Inr response \<Rightarrow>
               (case body_text response of
                  Inl e \<Rightarrow> failed
                | Inr responseData \<Rightarrow>
                    caught (Response_new (Body responseData) (status response) oauth_headers)
                      failed)))"

definition oauth_token_OPTIONS :: "incoming \<Rightarrow> error + reply" where
  "oauth_token_OPTIONS req = Response_new Empty 200 oauth_options_headers"

subsection \<open>/api/anthropic/oauth/api-key\<close>

definition oauth_api_key_POST :: "'j upstream \<Rightarrow> incoming \<Rightarrow> reply" where
  "oauth_api_key_POST up req =
     (let failed = Response_json (error_json ''Failed to create API key'') 500 allow_origin in
      case in_json req of
        Inl e \<Rightarrow> failed
      | Inr body \<Rightarrow>
          (case get_prop body ''access_token'' of
             Inl e \<Rightarrow> failed
           | Inr access_token \<Rightarrow>
               (case up \<lparr>req_url = ''https://api.anthropic.com/api/oauth/claude_cli/create_api_key'',
                         req_method = ''POST'',
                         req_headers = [(''Content-Type'', ''application/json''),
                                        (''Authorization'', ''Bearer '' @ to_string access_token)],
                         req_body = NoBody\<rparr> of
                  Inl e \<Rightarrow> failed
                | Inr response \<Rightarrow>
                    (case body_text response of
                       Inl e \<Rightarrow> failed
                     | Inr responseData \<Rightarrow>
                         caught
                           (Response_new (Body responseData) (status response) oauth_headers)
                           failed))))"

definition oauth_api_key_OPTIONS :: "incoming \<Rightarrow> error + reply" where
  "oauth_api_key_OPTIONS req = Response_new Empty 200 oauth_options_headers"

subsection \<open>/api/opencode/auth/:id\<close>

text \<open>\<open>req.text()\<close> is read before the \<open>try\<close>: when it throws, so does the handler.\<close>

definition auth_PUT :: "'j upstream \<Rightarrow> incoming \<Rightarrow> error + reply" where
  "auth_PUT up req =
     (let failed = Response_json (error_json ''Failed to store auth credentials'') 502 allow_origin in
      case in_text req of
        Inl e \<Rightarrow> Inl e
      | Inr body \<Rightarrow>
          Inr (case up \<lparr>req_url = ''http://0.0.0.0:3001/auth/'' @ in_id req,
                        req_method = ''PUT'',
                        req_headers = [(''Content-Type'', ''application/json'')],
                        req_body = Text body\<rparr> of
                 Inl e \<Rightarrow> failed
               | Inr response \<Rightarrow>
                   (case body_text response of
                      Inl e \<Rightarrow> failed
                    | Inr responseText \<Rightarrow>
                        caught
                          (Response_new (Body responseText) (status response)
                             (Headers
                                [(''Content-Type'', ''application/json''),
                                 (''Access-Control-Allow-Origin'', ''*''),
                                 (''Access-Control-Allow-Methods'',
                                  ''GET, POST, PUT, DELETE, OPTIONS''),
                                 (''Access-Control-Allow-Headers'',
                                  ''Content-Type, Authorization'')]))
                          failed)))"

definition auth_OPTIONS :: "incoming \<Rightarrow> error + reply" where
  "auth_OPTIONS req =
     Response_new Empty 200
       (Headers
          [(''Access-Control-Allow-Origin'', ''*''),
           (''Access-Control-Allow-Methods'', ''PUT, OPTIONS''),
           (''Access-Control-Allow-Headers'', ''Content-Type, Authorization'')])"

subsection \<open>/api/opencode/session and /api/opencode/session/:id/message\<close>

text \<open>
  The tail the four handlers share, written out in each of them in the source: the
  upstream's \<open>content-type\<close> is copied when it is truthy, the body is read as text, and the
  response is built with the upstream's status. All of it is inside the \<open>try\<close>.
\<close>

definition copy_back :: "('j, 'x) response_scheme \<Rightarrow> reply \<Rightarrow> reply" where
  "copy_back response failed =
     (let responseHeaders =
            (case content_type response of
               None \<Rightarrow> cors_headers
             | Some contentType \<Rightarrow>
                 if contentType \<noteq> [] then Headers_set ''content-type'' contentType cors_headers
                 else cors_headers)
      in case body_text response of
           Inl e \<Rightarrow> failed
         | Inr responseText \<Rightarrow>
             caught (Response_new (Body responseText) (status response) responseHeaders) failed)"

definition session_GET :: "'j upstream \<Rightarrow> incoming \<Rightarrow> reply" where
  "session_GET up req =
     (let failed = Response_json (error_json ''Failed to connect to OpenCode server'') 502 allow_origin in
      case up \<lparr>req_url = ''http://0.0.0.0:3001/session'' @ in_search req,
               req_method = in_method req,
               req_headers = [(''Content-Type'', ''application/json'')],
               req_body = NoBody\<rparr> of
        Inl e \<Rightarrow> failed
      | Inr response \<Rightarrow> copy_back response failed)"

definition session_POST :: "'j upstream \<Rightarrow> incoming \<Rightarrow> reply" where
  "session_POST up req =
     (let failed = Response_json (error_json ''Failed to create session'') 502 allow_origin in
      case in_text req of
        Inl e \<Rightarrow> failed
      | Inr body \<Rightarrow>
          (case up \<lparr>req_url = ''http://0.0.0.0:3001/session'',
                    req_method = ''POST'',
                    req_headers = [(''Content-Type'', ''application/json'')],
                    req_body = Text body\<rparr> of
             Inl e \<Rightarrow> failed
           | Inr response \<Rightarrow> copy_back response failed))"

definition session_OPTIONS :: "incoming \<Rightarrow> error + reply" where
  "session_OPTIONS req = Response_new Empty 200 cors_headers"

definition message_GET :: "'j upstream \<Rightarrow> incoming \<Rightarrow> reply" where
  "message_GET up req =
     (let failed = Response_json (error_json ''Failed to fetch messages'') 502 allow_origin in
      case up \<lparr>req_url = ''http://0.0.0.0:3001/session/'' @ in_id req @ ''/message'' @ in_search req,
               req_method = ''GET'',
               req_headers = [(''Content-Type'', ''application/json'')],
               req_body = NoBody\<rparr> of
        Inl e \<Rightarrow> failed
      | Inr response \<Rightarrow> copy_back response failed)"

definition message_POST :: "'j upstream \<Rightarrow> incoming \<Rightarrow> reply" where
  "message_POST up req =
     (let failed = Response_json (error_json ''Failed to send message'') 502 allow_origin in
      case in_text req of
        Inl e \<Rightarrow> failed
      | Inr body \<Rightarrow>
          (case up \<lparr>req_url = ''http://0.0.0.0:3001/session/'' @ in_id req @ ''/message'',
                    req_method = ''POST'',
                    req_headers = [(''Content-Type'', ''application/json'')],
                    req_body = Text body\<rparr> of
             Inl e \<Rightarrow> failed
           | Inr response \<Rightarrow> copy_back response failed))"

definition message_OPTIONS :: "incoming \<Rightarrow> error + reply" where
  "message_OPTIONS req = Response_new Empty 200 cors_headers"

subsection \<open>/api/opencode/events\<close>

definition events_request :: request where
  "events_request =
     \<lparr>req_url = ''http://0.0.0.0:3001/event'', req_method = ''GET'',
      req_headers = [(''Accept'', ''text/event-stream''), (''Cache-Control'', ''no-cache''),
                     (''Connection'', ''keep-alive'')],
      req_body = NoBody\<rparr>"

definition events :: "'j upstream \<Rightarrow> incoming \<Rightarrow> reply" where
  "events up req =
     (let failed = Response_json (error_json ''Failed to connect to OpenCode events stream'') 502
                     allow_origin in
      case up events_request of
        Inl e \<Rightarrow> failed
      | Inr response \<Rightarrow>
          if \<not> ok response then failed
          else caught
                 (Response_new (Stream (body_text response)) 200
                    (Headers
                       [(''Content-Type'', ''text/event-stream''),
                        (''Cache-Control'', ''no-cache''),
                        (''Connection'', ''keep-alive''),
                        (''Access-Control-Allow-Origin'', ''*''),
                        (''Access-Control-Allow-Headers'', ''Cache-Control'')]))
                 failed)"

subsection \<open>/api/opencode/* (the catch-all proxy)\<close>

text \<open>\<open>s.replace(pat, rep)\<close> with a string pattern: the first occurrence only.\<close>

fun replace_first :: "string \<Rightarrow> string \<Rightarrow> string \<Rightarrow> string" where
  "replace_first pat rep [] = (if pat = [] then rep else [])"
| "replace_first pat rep (c # cs) =
     (if take (length pat) (c # cs) = pat then rep @ drop (length pat) (c # cs)
      else c # replace_first pat rep cs)"

text \<open>\<open>s.includes(pat)\<close>.\<close>

fun str_includes :: "string \<Rightarrow> string \<Rightarrow> bool" where
  "str_includes pat [] = (pat = [])"
| "str_includes pat (c # cs) = (take (length pat) (c # cs) = pat \<or> str_includes pat cs)"

text \<open>
  The body is read for the debug log of an \<open>/auth/\<close> path before the \<open>try\<close> (from a clone
  of the request), so a read that throws there leaves the handler; inside the \<open>try\<close> it
  is caught. The error response is built without headers.
\<close>

definition catch_all :: "'j upstream \<Rightarrow> incoming \<Rightarrow> error + reply" where
  "catch_all up req =
     (let opencodeApiPath = replace_first ''/api/opencode'' [] (in_pathname req);
          opencodeUrl = ''http://0.0.0.0:3001'' @ opencodeApiPath @ in_search req;
          has_body = (in_method req \<noteq> ''GET'' \<and> in_method req \<noteq> ''HEAD'');
          failed = Response_json (error_json ''Failed to connect to OpenCode server'') 502 []
      in case (if str_includes ''/auth/'' opencodeApiPath \<and> has_body then in_text req
               else Inr ''none'') of
           Inl e \<Rightarrow> Inl e
         | Inr requestBody \<Rightarrow>
             Inr (case (if has_body then map_sum (\<lambda>e. e) Text (in_text req) else Inr NoBody) of
                    Inl e \<Rightarrow> failed
                  | Inr body \<Rightarrow>
                      (case up \<lparr>req_url = opencodeUrl,
                                req_method = in_method req,
                                req_headers =
                                  [(''Content-Type'',
                                    (case in_content_type req of
                                       None \<Rightarrow> ''application/json''
                                     | Some ct \<Rightarrow>
                                         if ct \<noteq> [] then ct else ''application/json''))],
                                req_body = body\<rparr> of
                         Inl e \<Rightarrow> failed
                       | Inr response \<Rightarrow> copy_back response failed)))"

subsection \<open>The forwarding handlers together\<close>

datatype endpoint =
    OAuthToken_POST | OAuthToken_OPTIONS
  | OAuthApiKey_POST | OAuthApiKey_OPTIONS
  | Auth_PUT | Auth_OPTIONS
  | Session_GET | Session_POST | Session_OPTIONS
  | Message_GET | Message_POST | Message_OPTIONS
  | Events
  | CatchAll

fun handle :: "endpoint \<Rightarrow> 'j upstream \<Rightarrow> incoming \<Rightarrow> error + reply" where
  "handle OAuthToken_POST up req = Inr (oauth_token_POST up req)"
| "handle OAuthToken_OPTIONS up req = oauth_token_OPTIONS req"
| "handle OAuthApiKey_POST up req = Inr (oauth_api_key_POST up req)"
| "handle OAuthApiKey_OPTIONS up req = oauth_api_key_OPTIONS req"
| "handle Auth_PUT up req = auth_PUT up req"
| "handle Auth_OPTIONS up req = auth_OPTIONS req"
| "handle Session_GET up req = Inr (session_GET up req)"
| "handle Session_POST up req = Inr (session_POST up req)"
| "handle Session_OPTIONS up req = session_OPTIONS req"
| "handle Message_GET up req = Inr (message_GET up req)"
| "handle Message_POST up req = Inr (message_POST up req)"
| "handle Message_OPTIONS up req = message_OPTIONS req"
| "handle Events up req = Inr (events up req)"
| "handle CatchAll up req = catch_all up req"


text \<open>\<open>{ error: msg }\<close> for some message.\<close>

fun is_error_body :: "reply_body \<Rightarrow> bool" where
  "is_error_body (Json (JObj [(k, JStr msg)])) = (k = ''error'')"
| "is_error_body _ = False"

section \<open>AiChat (components/AiChat)\<close>

record Message =
  msg_id :: string
  role :: string
  content :: string
  timestamp :: int

text \<open>
  An \<open>EventSource\<close> the widget has opened: its URL, the session id its \<open>onmessage\<close>
  handler was given, and whether \<open>close()\<close> has been called on it.
\<close>

record EventSource =
  es_url :: string
  es_sessionId :: jsval
  es_closed :: bool

text \<open>
  The widget: its \<open>useState\<close> cells, \<open>eventSourceRef\<close> (an index into \<open>sources\<close>, the
  event sources opened so far), and the messages passed to the \<open>onError\<close> callback.
\<close>

record AiChat =
  messages :: "Message list"
  input :: string
  isLoading :: bool
  sessionId :: jsval
  eventSourceRef :: "nat option"
  sources :: "EventSource list"
  reported :: "string list"

definition AiChat_init :: AiChat where
  "AiChat_init =
     \<lparr>messages = [], input = [], isLoading = False, sessionId = JNull,
      eventSourceRef = None, sources = [], reported = []\<rparr>"

text \<open>
  \<open>setupEventSource\<close>: closes the source the ref holds, opens a new one on the events
  route and stores it in the ref.
\<close>

definition setupEventSource :: "jsval \<Rightarrow> AiChat \<Rightarrow> AiChat" where
  "setupEventSource sid chat =
     (let closed =
            (case eventSourceRef chat of
               None \<Rightarrow> sources chat
             | Some h \<Rightarrow>
                 if h < length (sources chat)
                 then (sources chat)[h := (sources chat ! h)\<lparr>es_closed := True\<rparr>]
                 else sources chat);
          eventSource = \<lparr>es_url = ''/api/opencode/events'', es_sessionId = sid, es_closed = False\<rparr>
      in chat\<lparr>sources := closed @ [eventSource], eventSourceRef := Some (length closed)\<rparr>)"

definition createSession_request :: "string \<Rightarrow> request" where
  "createSession_request localeString =
     \<lparr>req_url = ''/api/opencode/session'', req_method = ''POST'',
      req_headers = [(''Content-Type'', ''application/json'')],
      req_body = Stringify (JObj [(''title'', JStr (''AI Chat - '' @ localeString))])\<rparr>"

definition unable_to_connect :: string where
  "unable_to_connect =
     [CHR 0xE2, CHR 0x9D, CHR 0x8C] @ '' Unable to connect to OpenCode server. Please ensure:''
     @ [CHR 0x0A, CHR 0x0A] @ ''1. OpenCode server is running on port 3001''
     @ [CHR 0x0A] @ ''2. You have proper authentication set up''
     @ [CHR 0x0A] @ ''3. Try refreshing the page''"

text \<open>The \<open>catch\<close> block of \<open>createSession\<close>; \<open>now\<close> is the clock, in milliseconds.\<close>

definition createSession_failed :: "int \<Rightarrow> string \<Rightarrow> AiChat \<Rightarrow> AiChat" where
  "createSession_failed now errorMsg chat =
     chat\<lparr>reported := reported chat @ [errorMsg],
          messages := messages chat @
            [\<lparr>msg_id = show_int now, role = ''assistant'', content = unable_to_connect,
              timestamp = now\<rparr>]\<rparr>"

text \<open>
  \<open>createSession\<close>. \<open>localeString\<close> is \<open>new Date().toLocaleString()\<close>. In the branch for a
  response that is not ok, the inner \<open>try\<close> swallows a body that does not parse and a
  parsed \<open>null\<close>, leaving the text as the error.
\<close>

definition createSession ::
  "jsval network \<Rightarrow> request list \<Rightarrow> int \<Rightarrow> string \<Rightarrow> AiChat \<Rightarrow> AiChat \<times> request list" where
  "createSession net log now localeString chat =
     (case fetch net log (createSession_request localeString) of
        (Inl (Error msg), log') \<Rightarrow> (createSession_failed now msg chat, log')
      | (Inr response, log') \<Rightarrow>
          if \<not> ok response then
            (case body_text response of
               Inl (Error msg) \<Rightarrow> (createSession_failed now msg chat, log')
             | Inr errorText \<Rightarrow>
                 let parsedError =
                   (case body_json response of
                      Inl e \<Rightarrow> errorText
                    | Inr errorObj \<Rightarrow>
                        (case get_prop errorObj ''error'' of
                           Inl e \<Rightarrow> errorText
                         | Inr v \<Rightarrow> if truthy v then to_string v else errorText))
                 in (createSession_failed now
                       (''Failed to create session ('' @ show_nat (status response) @ ''): ''
                        @ parsedError) chat, log'))
          else
            (case body_json response of
               Inl (Error msg) \<Rightarrow> (createSession_failed now msg chat, log')
             | Inr session \<Rightarrow>
                 (case get_prop session ''id'' of
                    Inl (Error msg) \<Rightarrow> (createSession_failed now msg chat, log')
                  | Inr session_id \<Rightarrow>
                      (setupEventSource session_id (chat\<lparr>sessionId := session_id\<rparr>), log'))))"

section \<open>Measures and example inputs\<close>

text \<open>How many of the requests went to a URL.\<close>

definition contacted :: "string \<Rightarrow> request list \<Rightarrow> nat" where
  "contacted u log = length (filter (\<lambda>q. req_url q = u) log)"

text \<open>The \<open>DELETE\<close> requests among the requests.\<close>

definition deletes :: "request list \<Rightarrow> request list" where
  "deletes log = filter (\<lambda>q. req_method q = ''DELETE'') log"

text \<open>A network that cannot be reached, and one that gives the same answer to everything.\<close>

definition unreachable :: "'j network" where
  "unreachable log q = Inl (Error ''Failed to fetch'')"

definition answering :: "'j response \<Rightarrow> 'j network" where
  "answering r log q = Inr r"

definition down :: "'j upstream" where
  "down q = Inl (Error ''ConnectionRefused'')"

definition replying :: "'j response \<Rightarrow> 'j upstream" where
  "replying r q = Inr r"

text \<open>\<open>ToNumber\<close> on the values that are numbers already, \<open>NaN\<close> on the others.\<close>

definition number_only :: "jsval \<Rightarrow> int option" where
  "number_only v = (case v of JNum n \<Rightarrow> Some n | _ \<Rightarrow> None)"

definition json_response :: "nat \<Rightarrow> 'j \<Rightarrow> 'j response" where
  "json_response s v =
     \<lparr>status = s, statusText = [], content_type = Some ''application/json'',
      body_text = Inr [], body_json = Inr v\<rparr>"

definition text_response :: "nat \<Rightarrow> string \<Rightarrow> string \<Rightarrow> 'j response" where
  "text_response s ct t =
     \<lparr>status = s, statusText = [], content_type = Some ct,
      body_text = Inr t, body_json = Inl (Error ''SyntaxError'')\<rparr>"

text \<open>\<open>sessionStorage\<close> after \<open>startAnthropicAuth\<close> for a Claude Pro login.\<close>

definition pending_login :: storage where
  "pending_login =
     setItem ''anthropic_method'' ''claude-pro'' (setItem ''anthropic_verifier'' ''v3r1f13r'' Map.empty)"

text \<open>A token endpoint that answers with tokens and an API-key endpoint that is refused.\<close>

definition tokens :: jsval where
  "tokens = JObj [(''refresh_token'', JStr ''r''), (''access_token'', JStr ''a''),
                  (''expires_in'', JNum 3600)]"

definition key_refused :: "jsval network" where
  "key_refused log q =
     (if req_url q = token_url then Inr (json_response 200 tokens)
      else Inr (json_response 403 JNull))"

definition key_unreachable :: "jsval network" where
  "key_unreachable log q =
     (if req_url q = token_url then Inr (json_response 200 tokens)
      else Inl (Error ''Failed to fetch''))"

text \<open>Requests from the browser: a \<open>GET\<close> and a \<open>POST\<close> with a JSON body.\<close>

definition browser_get :: "string \<Rightarrow> incoming" where
  "browser_get path =
     \<lparr>in_method = ''GET'', in_pathname = path, in_search = [], in_content_type = None,
      in_text = Inr [], in_json = Inl (Error ''SyntaxError''), in_id = ''anthropic''\<rparr>"


text \<open>The session the OpenCode server creates in the example of the specification.\<close>

definition ses_1 :: jsval where
  "ses_1 = JObj [(''id'', JStr ''ses_1'')]"

definition two_providers :: ProvidersResponse where
  "two_providers =
     \<lparr>providers = Some
        [\<lparr>provider_id = ''anthropic'', name = ''Anthropic'', models = [''claude''],
          authenticated = True, authType = Some ''oauth''\<rparr>,
         \<lparr>provider_id = ''openai'', name = ''OpenAI'', models = [],
          authenticated = False, authType = None\<rparr>],
      default = []\<rparr>"

section \<open>Header tables in lower case\<close>

lemma lower_names:
  "lower ''Access-Control-Allow-Origin'' = ''access-control-allow-origin''"
  "lower ''content-type'' = ''content-type''"
  "lower ''Content-Type'' = ''content-type''"
  by (simp_all add: lower_def lower_char_def)

lemma allow_origin_eval: "allow_origin = [(''access-control-allow-origin'', ''*'')]"
  by (simp add: allow_origin_def Headers_def lower_def lower_char_def)

lemma cors_headers_eval:
  "cors_headers =
     [(''access-control-allow-origin'', ''*''),
      (''access-control-allow-methods'', ''GET, POST, PUT, DELETE, OPTIONS''),
      (''access-control-allow-headers'', ''Content-Type, Authorization'')]"
  by (simp add: cors_headers_def Headers_def lower_def lower_char_def)

lemma oauth_headers_eval:
  "oauth_headers =
     [(''content-type'', ''application/json''),
      (''access-control-allow-origin'', ''*''),
      (''access-control-allow-methods'', ''POST, OPTIONS''),
      (''access-control-allow-headers'', ''Content-Type, Authorization'')]"
  by (simp add: oauth_headers_def Headers_def lower_def lower_char_def)

lemma oauth_options_headers_eval:
  "oauth_options_headers =
     [(''access-control-allow-origin'', ''*''),
      (''access-control-allow-methods'', ''POST, OPTIONS''),
      (''access-control-allow-headers'', ''Content-Type, Authorization'')]"
  by (simp add: oauth_options_headers_def Headers_def lower_def lower_char_def)

lemma auth_headers_eval:
  "Headers [(''Content-Type'', ''application/json''),
            (''Access-Control-Allow-Origin'', ''*''),
            (''Access-Control-Allow-Methods'', ''GET, POST, PUT, DELETE, OPTIONS''),
            (''Access-Control-Allow-Headers'', ''Content-Type, Authorization'')] =
     [(''content-type'', ''application/json''),
      (''access-control-allow-origin'', ''*''),
      (''access-control-allow-methods'', ''GET, POST, PUT, DELETE, OPTIONS''),
      (''access-control-allow-headers'', ''Content-Type, Authorization'')]"
  by (simp add: Headers_def lower_def lower_char_def)

lemma auth_options_headers_eval:
  "Headers [(''Access-Control-Allow-Origin'', ''*''),
            (''Access-Control-Allow-Methods'', ''PUT, OPTIONS''),
            (''Access-Control-Allow-Headers'', ''Content-Type, Authorization'')] =
     [(''access-control-allow-origin'', ''*''),
      (''access-control-allow-methods'', ''PUT, OPTIONS''),
      (''access-control-allow-headers'', ''Content-Type, Authorization'')]"
  by (simp add: Headers_def lower_def lower_char_def)

lemma events_headers_eval:
  "Headers [(''Content-Type'', ''text/event-stream''),
            (''Cache-Control'', ''no-cache''),
            (''Connection'', ''keep-alive''),
            (''Access-Control-Allow-Origin'', ''*''),
            (''Access-Control-Allow-Headers'', ''Cache-Control'')] =
     [(''content-type'', ''text/event-stream''),
      (''cache-control'', ''no-cache''),
      (''connection'', ''keep-alive''),
      (''access-control-allow-origin'', ''*''),
      (''access-control-allow-headers'', ''Cache-Control'')]"
  by (simp add: Headers_def lower_def lower_char_def)

lemmas headers_eval = lower_names allow_origin_eval cors_headers_eval oauth_headers_eval
  oauth_options_headers_eval auth_headers_eval auth_options_headers_eval events_headers_eval

section \<open>What the shared tail of the proxy handlers returns\<close>




lemma copy_back_origin:
  "Headers_get (reply_headers failed) ''Access-Control-Allow-Origin'' = Some ''*'' \<Longrightarrow>
   Headers_get (reply_headers (copy_back r failed)) ''Access-Control-Allow-Origin'' = Some ''*''"
  by (simp add: copy_back_def Response_new_def caught_def Let_def Headers_get_def Headers_set_def
      headers_eval split: option.splits sum.splits)

section \<open>Session storage after completing a login\<close>

text \<open>
  C1, as the code has it. \<open>completeAnthropicAuth\<close> reports success exactly when both
  \<open>anthropic_verifier\<close> and \<open>anthropic_method\<close> are in \<open>sessionStorage\<close> and not empty, the
  code exchange gives a result that is not failed, and storing the credentials
  succeeds. It removes the two entries exactly when it reports success; in every other
  case it leaves \<open>sessionStorage\<close> as it found it.
\<close>

theorem completeAnthropicAuth_storage:
  "success (fst (completeAnthropicAuth store net log ToNumber now authCode)) =
     (case (store ''anthropic_verifier'', store ''anthropic_method'') of
        (Some verifier, Some method) \<Rightarrow>
          verifier \<noteq> [] \<and> method \<noteq> []
          \<and> ex_type (fst (exchangeCode net log ToNumber now authCode verifier method)) = Success
          \<and> fst (storeCredentials net
                 (snd (exchangeCode net log ToNumber now authCode verifier method))
                 (fst (exchangeCode net log ToNumber now authCode verifier method)))
      | _ \<Rightarrow> False)
   \<and> fst (snd (completeAnthropicAuth store net log ToNumber now authCode)) =
       (if success (fst (completeAnthropicAuth store net log ToNumber now authCode))
        then store(''anthropic_verifier'' := None, ''anthropic_method'' := None)
        else store)"
proof -
  have flow: "fst (completeOAuthFlow net log ToNumber now authCode v m) =
      (ex_type (fst (exchangeCode net log ToNumber now authCode v m)) = Success
       \<and> fst (storeCredentials net
              (snd (exchangeCode net log ToNumber now authCode v m))
              (fst (exchangeCode net log ToNumber now authCode v m))))"
    for v m
    by (cases "exchangeCode net log ToNumber now authCode v m";
        cases "ex_type (fst (exchangeCode net log ToNumber now authCode v m))")
       (simp_all add: completeOAuthFlow_def)
  show ?thesis
  proof (cases "store ''anthropic_verifier''")
    case None
    then show ?thesis
      by (simp add: completeAnthropicAuth_def AuthResult_error_def)
  next
    case stored_verifier: (Some v)
    show ?thesis
    proof (cases "store ''anthropic_method''")
      case None
      with stored_verifier show ?thesis
        by (simp add: completeAnthropicAuth_def AuthResult_error_def)
    next
      case stored_method: (Some m)
      show ?thesis
      proof (cases "completeOAuthFlow net log ToNumber now authCode v m")
        case (Pair flag log')
        with stored_verifier stored_method flow [of v m] show ?thesis
          by (cases flag)
             (auto simp add: completeAnthropicAuth_def AuthResult_ok_def AuthResult_error_def
               removeItem_def fun_upd_twist)
      qed
    qed
  qed
qed

text \<open>
  The theorem at work: the token endpoint answers with tokens and the credential store
  accepts them, so success is reported and the verifier is gone.
\<close>

theorem completeAnthropicAuth_storage_witness:
  "success (fst (completeAnthropicAuth pending_login (answering (json_response 200 tokens)) []
      number_only 0 ''code#state''))
   \<and> fst (snd (completeAnthropicAuth pending_login (answering (json_response 200 tokens)) []
        number_only 0 ''code#state'')) ''anthropic_verifier'' = None"
proof -
  have stored: "pending_login ''anthropic_verifier'' = Some ''v3r1f13r''
                \<and> pending_login ''anthropic_method'' = Some ''claude-pro''"
    by (simp add: pending_login_def setItem_def)
  have exchanged: "exchangeCode (answering (json_response 200 tokens)) [] number_only 0
                     ''code#state'' ''v3r1f13r'' ''claude-pro'' =
      (\<lparr>ex_type = Success, refresh = JStr ''r'', access = JStr ''a'', expires = JNum 3600000,
        key = JUndefined\<rparr>, [token_request ''code#state'' ''v3r1f13r''])"
    by (simp add: exchangeCode_def fetch_def answering_def json_response_def ok_def tokens_def
        expires_at_def number_only_def)
  have kept: "fst (storeCredentials (answering (json_response 200 tokens))
                [token_request ''code#state'' ''v3r1f13r'']
                \<lparr>ex_type = Success, refresh = JStr ''r'', access = JStr ''a'',
                  expires = JNum 3600000, key = JUndefined\<rparr>)"
    by (simp add: storeCredentials_def fetch_def answering_def json_response_def ok_def Let_def)
  from completeAnthropicAuth_storage
         [of pending_login "answering (json_response 200 tokens)" "[]" number_only 0
             "''code#state''"]
       stored exchanged kept
  show ?thesis by simp
qed

text \<open>
  C1 as stated fails: with a login pending and the network unreachable, the verifier is
  still in \<open>sessionStorage\<close> when \<open>completeAnthropicAuth\<close> returns.
\<close>

theorem verifier_kept_when_exchange_fails:
  "fst (snd (completeAnthropicAuth pending_login unreachable [] number_only 0 ''code#state''))
     ''anthropic_verifier'' = Some ''v3r1f13r''"
  by (simp add: completeAnthropicAuth_def pending_login_def setItem_def completeOAuthFlow_def
      exchangeCode_def fetch_def unreachable_def AuthResult_error_def failed_result_def)

section \<open>The relay when the upstream cannot be reached\<close>




section \<open>Status and content type handed back by the relay\<close>




section \<open>The cross-origin header\<close>

text \<open>
  C4 at the input where the code misses it: the OpenCode server is unreachable and the
  request falls to the catch-all proxy. The 502 response is built without any header, so
  it carries no \<open>Access-Control-Allow-Origin\<close>.
\<close>

theorem catch_all_error_without_cors:
  "catch_all (down :: jsval upstream) (browser_get ''/api/opencode/config/providers'') =
     Inr \<lparr>reply_status = 502, reply_headers = [],
          reply_body = Json (JObj [(''error'', JStr ''Failed to connect to OpenCode server'')])\<rparr>"
  by (simp add: catch_all_def down_def browser_get_def Response_json_def error_json_def Let_def)

text \<open>Every response of every other handler, error branches included, carries the header.\<close>

lemma cors_on_every_other_response:
  assumes "handle e up req = Inr reply" and "e \<noteq> CatchAll"
  shows "Headers_get (reply_headers reply) ''Access-Control-Allow-Origin'' = Some ''*''"
proof -
  have fo: "\<And>s v. Headers_get (reply_headers (Response_json v s allow_origin))
                    ''Access-Control-Allow-Origin'' = Some ''*''"
    by (simp add: Response_json_def Headers_get_def headers_eval)
  show ?thesis
  proof (cases e)
    case OAuthToken_POST
    with assms show ?thesis
      by (auto simp add: oauth_token_POST_def Response_json_def Response_new_def caught_def
          Let_def Headers_get_def headers_eval split: sum.splits if_splits)
  next
    case OAuthToken_OPTIONS
    with assms show ?thesis
      by (auto simp add: oauth_token_OPTIONS_def Response_new_def Headers_get_def headers_eval)
  next
    case OAuthApiKey_POST
    with assms show ?thesis
      by (auto simp add: oauth_api_key_POST_def Response_json_def Response_new_def caught_def
          Let_def Headers_get_def headers_eval split: sum.splits if_splits)
  next
    case OAuthApiKey_OPTIONS
    with assms show ?thesis
      by (auto simp add: oauth_api_key_OPTIONS_def Response_new_def Headers_get_def headers_eval)
  next
    case Auth_PUT
    with assms show ?thesis
      by (auto simp add: auth_PUT_def Response_json_def Response_new_def caught_def Let_def
          Headers_get_def headers_eval split: sum.splits if_splits)
  next
    case Auth_OPTIONS
    with assms show ?thesis
      by (auto simp add: auth_OPTIONS_def Response_new_def Headers_get_def headers_eval)
  next
    case Session_GET
    with assms show ?thesis
      by (auto simp add: session_GET_def Let_def fo copy_back_origin split: sum.splits)
  next
    case Session_POST
    with assms show ?thesis
      by (auto simp add: session_POST_def Let_def fo copy_back_origin split: sum.splits)
  next
    case Session_OPTIONS
    with assms show ?thesis
      by (auto simp add: session_OPTIONS_def Response_new_def Headers_get_def headers_eval)
  next
    case Message_GET
    with assms show ?thesis
      by (auto simp add: message_GET_def Let_def fo copy_back_origin split: sum.splits)
  next
    case Message_POST
    with assms show ?thesis
      by (auto simp add: message_POST_def Let_def fo copy_back_origin split: sum.splits)
  next
    case Message_OPTIONS
    with assms show ?thesis
      by (auto simp add: message_OPTIONS_def Response_new_def Headers_get_def headers_eval)
  next
    case Events
    with assms show ?thesis
      by (auto simp add: events_def Response_json_def Response_new_def caught_def Let_def
          Headers_get_def headers_eval split: sum.splits)
  next
    case CatchAll
    with assms show ?thesis by simp
  qed
qed

text \<open>
  So does the catch-all proxy whenever the upstream answers with a status in 200..599 and
  its body can be read.
\<close>

lemma cors_on_catch_all_success:
  assumes "catch_all up req = Inr reply" and "\<forall>q. up q = Inr r" and "body_text r = Inr t"
    and "in_text req = Inr sent" and "200 \<le> status r" and "status r \<le> 599"
  shows "Headers_get (reply_headers reply) ''Access-Control-Allow-Origin'' = Some ''*''"
  using assms
  by (auto simp add: catch_all_def copy_back_def Response_new_def caught_def Let_def
      Headers_get_def Headers_set_def headers_eval Response_json_def split: if_splits option.splits)

section \<open>Exchanging the authorization code\<close>

lemma exchangeCode_log:
  "\<exists>new. snd (exchangeCode net log ToNumber now code verifier method) = log @ new
     \<and> contacted token_url new \<le> 1 \<and> contacted api_key_url new \<le> 1"
  by (auto simp add: exchangeCode_def fetch_def contacted_def token_request_def
      api_key_request_def token_url_def api_key_url_def Let_def split: sum.splits prod.splits)

text \<open>
  C5. When the \<open>fetch\<close> of the token endpoint throws or is answered with a status
  outside 200..299, or, in \<open>api-key\<close> mode after a token answer that is ok, the \<open>fetch\<close>
  of the API-key endpoint throws or is answered with such a status, \<open>exchangeCode\<close>
  returns exactly \<open>{ type: "failed" }\<close>, with no token and no key field, and among the
  requests it made each of the two endpoints occurs at most once.
\<close>

theorem exchangeCode_failed_without_retry:
  assumes "(\<exists>e. net log (token_request code verifier) = Inl e)
         \<or> (\<exists>r. net log (token_request code verifier) = Inr r \<and> \<not> ok r)
         \<or> (\<exists>r json tok. method = ''api-key''
               \<and> net log (token_request code verifier) = Inr r \<and> ok r
               \<and> body_json r = Inr json \<and> get_prop json ''access_token'' = Inr tok
               \<and> ((\<exists>e. net (log @ [token_request code verifier]) (api_key_request tok) = Inl e)
                  \<or> (\<exists>r'. net (log @ [token_request code verifier]) (api_key_request tok) = Inr r'
                         \<and> \<not> ok r')))"
  shows "fst (exchangeCode net log ToNumber now code verifier method) = failed_result
       \<and> contacted token_url
           (drop (length log) (snd (exchangeCode net log ToNumber now code verifier method))) \<le> 1
       \<and> contacted api_key_url
           (drop (length log) (snd (exchangeCode net log ToNumber now code verifier method))) \<le> 1"
proof -
  have "fst (exchangeCode net log ToNumber now code verifier method) = failed_result"
    using assms by (auto simp add: exchangeCode_def fetch_def split: sum.splits)
  moreover obtain new
    where "snd (exchangeCode net log ToNumber now code verifier method) = log @ new"
      and "contacted token_url new \<le> 1" and "contacted api_key_url new \<le> 1"
    using exchangeCode_log by blast
  ultimately show ?thesis by simp
qed

text \<open>
  The theorem at work: the network is unreachable; the API-key endpoint refuses; the
  API-key endpoint is unreachable.
\<close>

theorem exchangeCode_failed_without_retry_witness:
  "fst (exchangeCode unreachable [] number_only 0 ''code#state'' ''v3r1f13r'' ''claude-pro'')
     = failed_result
   \<and> fst (exchangeCode key_refused [] number_only 0 ''code#state'' ''v3r1f13r'' ''api-key'')
     = failed_result
   \<and> contacted api_key_url
       (snd (exchangeCode key_refused [] number_only 0 ''code#state'' ''v3r1f13r'' ''api-key'')) \<le> 1
   \<and> fst (exchangeCode key_unreachable [] number_only 0 ''code#state'' ''v3r1f13r'' ''api-key'')
     = failed_result"
proof -
  have a: "\<exists>e. (unreachable :: jsval network) [] (token_request ''code#state'' ''v3r1f13r'') = Inl e"
    by (simp add: unreachable_def)
  have b: "\<exists>r json tok. ''api-key'' = ''api-key''
             \<and> key_refused [] (token_request ''code#state'' ''v3r1f13r'') = Inr r \<and> ok r
             \<and> body_json r = Inr json \<and> get_prop json ''access_token'' = Inr tok
             \<and> ((\<exists>e. key_refused ([] @ [token_request ''code#state'' ''v3r1f13r''])
                         (api_key_request tok) = Inl e)
                \<or> (\<exists>r'. key_refused ([] @ [token_request ''code#state'' ''v3r1f13r''])
                          (api_key_request tok) = Inr r' \<and> \<not> ok r'))"
    by (simp add: key_refused_def token_request_def api_key_request_def token_url_def
        api_key_url_def json_response_def ok_def tokens_def Let_def)
  have c: "\<exists>r json tok. ''api-key'' = ''api-key''
             \<and> key_unreachable [] (token_request ''code#state'' ''v3r1f13r'') = Inr r \<and> ok r
             \<and> body_json r = Inr json \<and> get_prop json ''access_token'' = Inr tok
             \<and> ((\<exists>e. key_unreachable ([] @ [token_request ''code#state'' ''v3r1f13r''])
                         (api_key_request tok) = Inl e)
                \<or> (\<exists>r'. key_unreachable ([] @ [token_request ''code#state'' ''v3r1f13r''])
                          (api_key_request tok) = Inr r' \<and> \<not> ok r'))"
    by (simp add: key_unreachable_def token_request_def api_key_request_def token_url_def
        api_key_url_def json_response_def ok_def tokens_def Let_def)
  from exchangeCode_failed_without_retry
         [of unreachable "[]" "''code#state''" "''v3r1f13r''" "''claude-pro''" number_only 0]
       exchangeCode_failed_without_retry
         [of key_refused "[]" "''code#state''" "''v3r1f13r''" "''api-key''" number_only 0]
       exchangeCode_failed_without_retry
         [of key_unreachable "[]" "''code#state''" "''v3r1f13r''" "''api-key''" number_only 0]
       a b c
  show ?thesis by simp
qed

section \<open>The events route\<close>

text \<open>
  C6. When the \<open>fetch\<close> of the OpenCode \<open>/event\<close> endpoint throws, or is answered with a
  status that is not ok, the handler answers with status 502 and a JSON body
  \<open>{ error: message }\<close>; when it is answered with an ok status, the handler answers with
  status 200, \<open>Content-Type: text/event-stream\<close>, and the upstream's body as its body.
\<close>

theorem events_stream_or_502:
  "(up events_request = Inl e \<longrightarrow>
      reply_status (events up req) = 502 \<and> is_error_body (reply_body (events up req)))
   \<and> (up events_request = Inr r \<and> \<not> ok r \<longrightarrow>
      reply_status (events up req) = 502 \<and> is_error_body (reply_body (events up req)))
   \<and> (up events_request = Inr r \<and> ok r \<longrightarrow>
      reply_status (events up req) = 200
      \<and> Headers_get (reply_headers (events up req)) ''Content-Type'' = Some ''text/event-stream''
      \<and> reply_body (events up req) = Stream (body_text r))"
  by (simp add: events_def Response_json_def Response_new_def caught_def error_json_def Let_def
      Headers_get_def headers_eval)

text \<open>
  The theorem at work: the server is down; it answers 503; it answers 200 with a stream.
\<close>

theorem events_stream_or_502_witness:
  "reply_status (events (down :: jsval upstream) (browser_get ''/api/opencode/events'')) = 502
   \<and> reply_status (events (replying (text_response 503 ''text/plain'' ''busy'' :: jsval response))
         (browser_get ''/api/opencode/events'')) = 502
   \<and> reply_status (events (replying (text_response 200 ''text/event-stream'' ''data: {}'' :: jsval response))
         (browser_get ''/api/opencode/events'')) = 200
   \<and> reply_body (events (replying (text_response 200 ''text/event-stream'' ''data: {}'' :: jsval response))
         (browser_get ''/api/opencode/events'')) = Stream (Inr ''data: {}'')"
proof -
  have a: "(down :: jsval upstream) events_request = Inl (Error ''ConnectionRefused'')"
    by (simp add: down_def)
  have b: "replying (text_response 503 ''text/plain'' ''busy'' :: jsval response) events_request
             = Inr (text_response 503 ''text/plain'' ''busy'')
           \<and> \<not> ok (text_response 503 ''text/plain'' ''busy'' :: jsval response)"
    by (simp add: replying_def text_response_def ok_def)
  have c: "replying (text_response 200 ''text/event-stream'' ''data: {}'' :: jsval response)
             events_request = Inr (text_response 200 ''text/event-stream'' ''data: {}'')
           \<and> ok (text_response 200 ''text/event-stream'' ''data: {}'' :: jsval response)"
    by (simp add: replying_def text_response_def ok_def)
  from events_stream_or_502
         [of "down :: jsval upstream" "Error ''ConnectionRefused''"
             "browser_get ''/api/opencode/events''"]
       events_stream_or_502
         [of "replying (text_response 503 ''text/plain'' ''busy'' :: jsval response)" _
             "browser_get ''/api/opencode/events''" "text_response 503 ''text/plain'' ''busy''"]
       events_stream_or_502
         [of "replying (text_response 200 ''text/event-stream'' ''data: {}'' :: jsval response)" _
             "browser_get ''/api/opencode/events''"
             "text_response 200 ''text/event-stream'' ''data: {}''"]
       a b c
  show ?thesis by (simp add: text_response_def)
qed

section \<open>Creating a chat session\<close>

text \<open>
  C7. When the session request is answered with a 2xx response whose body parses to an
  object with an \<open>id\<close>, \<open>createSession\<close> leaves that id in \<open>sessionId\<close> and an open
  \<open>EventSource\<close> on \<open>/api/opencode/events\<close> in \<open>eventSourceRef\<close>. For the body
  \<open>{"id":"ses_1"}\<close> the id is \<open>"ses_1"\<close>.
\<close>

theorem createSession_sets_id_and_subscribes:
  assumes "net log (createSession_request localeString) = Inr r" and "ok r"
    and "body_json r = Inr session" and "get_prop session ''id'' = Inr sid"
  shows "sessionId (fst (createSession net log now localeString chat)) = sid
       \<and> eventSourceRef (fst (createSession net log now localeString chat))
           = Some (length (sources chat))
       \<and> sources (fst (createSession net log now localeString chat)) ! length (sources chat)
           = \<lparr>es_url = ''/api/opencode/events'', es_sessionId = sid, es_closed = False\<rparr>"
  using assms
  by (auto simp add: createSession_def fetch_def setupEventSource_def Let_def nth_append
      split: option.splits)

text \<open>The theorem at the example of the specification.\<close>

theorem createSession_sets_id_and_subscribes_witness:
  "sessionId (fst (createSession (answering (json_response 200 ses_1)) [] 0 ''now'' AiChat_init))
     = JStr ''ses_1''
   \<and> eventSourceRef (fst (createSession (answering (json_response 200 ses_1)) [] 0 ''now''
        AiChat_init)) = Some 0
   \<and> sources (fst (createSession (answering (json_response 200 ses_1)) [] 0 ''now'' AiChat_init)) ! 0
     = \<lparr>es_url = ''/api/opencode/events'', es_sessionId = JStr ''ses_1'', es_closed = False\<rparr>"
proof -
  have a: "answering (json_response 200 ses_1) [] (createSession_request ''now'')
             = Inr (json_response 200 ses_1)"
    by (simp add: answering_def)
  have b: "ok (json_response 200 ses_1)"
    by (simp add: ok_def json_response_def)
  have c: "body_json (json_response 200 ses_1) = Inr ses_1"
    by (simp add: json_response_def)
  have d: "get_prop ses_1 ''id'' = Inr (JStr ''ses_1'')"
    by (simp add: ses_1_def)
  from createSession_sets_id_and_subscribes
         [of "answering (json_response 200 ses_1)" "[]" "''now''" "json_response 200 ses_1"
             ses_1 "JStr ''ses_1''" 0 AiChat_init]
       a b c d
  show ?thesis by (simp add: AiChat_init_def)
qed

section \<open>Clearing a provider's credentials\<close>

lemma handleClearAuth_log:
  "snd (handleClearAuth net log st providerId)
     = log @ [clearAuth_request providerId, providers_request]"
  by (simp add: handleClearAuth_def clearAuth_def fetchProviders_def fetch_def Let_def
      split: sum.splits error.splits)

text \<open>
  C8, as the code has it. Clearing authentication for a provider id issues exactly one
  \<open>DELETE\<close> request, to \<open>/api/opencode/auth/{id}\<close>, in both components. In the component
  that shows the server's provider list, when that \<open>DELETE\<close> succeeds the provider list is
  fetched again afterwards; the component over the static provider list makes no other
  request.
\<close>

theorem clearing_auth_requests:
  "deletes (drop (length log) (snd (handleClearAuth net log st providerId)))
     = [clearAuth_request providerId]
   \<and> handleClearAuth_static net' log providerId = log @ [clearAuth_request providerId]
   \<and> req_method (clearAuth_request providerId) = ''DELETE''
   \<and> req_url (clearAuth_request providerId) = ''/api/opencode/auth/'' @ providerId
   \<and> (net log (clearAuth_request providerId) = Inr r \<and> ok r \<longrightarrow>
        snd (handleClearAuth net log st providerId)
          = log @ [clearAuth_request providerId, providers_request])"
proof -
  have made: "snd (handleClearAuth net log st providerId)
                = log @ [clearAuth_request providerId, providers_request]"
    by (rule handleClearAuth_log)
  have one: "deletes [clearAuth_request providerId, providers_request]
               = [clearAuth_request providerId]"
    by (simp add: deletes_def clearAuth_request_def providers_request_def)
  have static: "handleClearAuth_static net' log providerId = log @ [clearAuth_request providerId]"
    by (simp add: handleClearAuth_static_def clearAuth_def fetch_def split: sum.splits)
  have shape: "req_method (clearAuth_request providerId) = ''DELETE''
               \<and> req_url (clearAuth_request providerId) = ''/api/opencode/auth/'' @ providerId"
    by (simp add: clearAuth_request_def)
  from made one static shape show ?thesis by simp
qed

text \<open>The theorem at work: the \<open>DELETE\<close> is answered with 200 and the list is fetched again.\<close>

theorem clearing_auth_requests_witness:
  "snd (handleClearAuth (answering (json_response 200 two_providers)) [] AuthStatus_init ''openai'')
     = [clearAuth_request ''openai'', providers_request]"
proof -
  have a: "answering (json_response 200 two_providers) [] (clearAuth_request ''openai'')
             = Inr (json_response 200 two_providers)
           \<and> ok (json_response 200 two_providers)"
    by (simp add: answering_def json_response_def ok_def)
  from clearing_auth_requests
         [of "[]" "answering (json_response 200 two_providers)" AuthStatus_init "''openai''"
             "answering (json_response 200 two_providers)" "json_response 200 two_providers"]
       a
  show ?thesis by simp
qed

text \<open>
  C8 as stated fails: in the component over the static list the \<open>DELETE\<close> succeeds and the
  provider list is not requested.
\<close>

theorem static_list_is_not_refetched:
  "success (fst (clearAuth (answering (json_response 200 two_providers)) [] ''openai''))
   \<and> handleClearAuth_static (answering (json_response 200 two_providers)) [] ''openai''
       = [clearAuth_request ''openai'']
   \<and> clearAuth_request ''openai'' \<noteq> providers_request"
  by (simp add: handleClearAuth_static_def clearAuth_def fetch_def answering_def
      json_response_def ok_def AuthResult_ok_def clearAuth_request_def providers_request_def)

section \<open>Provider counts in the status card\<close>

text \<open>
  C9. When the provider list request is answered with a 2xx response that parses, the
  status card is rendered, its authenticated count is the number of providers of the
  response whose \<open>authenticated\<close> flag is true, and its total is the number of providers of
  the response (none when the response has no \<open>providers\<close> field).
\<close>

theorem status_counts_match_response:
  assumes "net log providers_request = Inr r" and "ok r" and "body_json r = Inr data"
    and "ps = (case providers data of None \<Rightarrow> [] | Some ps \<Rightarrow> ps)"
  shows "render (fst (fetchProviders net log st)) =
           StatusView (length (filter authenticated ps)) (length ps) (map render_row ps)"
  using assms by (simp add: fetchProviders_def fetch_def render_def status_card_def Let_def)

text \<open>The theorem at work: one of two providers is authenticated.\<close>

theorem status_counts_match_response_witness:
  "authenticatedCount
     (render (fst (fetchProviders (answering (json_response 200 two_providers)) []
        AuthStatus_init))) = 1
   \<and> totalCount
     (render (fst (fetchProviders (answering (json_response 200 two_providers)) []
        AuthStatus_init))) = 2"
proof -
  have a: "answering (json_response 200 two_providers) [] providers_request
             = Inr (json_response 200 two_providers)"
    by (simp add: answering_def)
  have b: "ok (json_response 200 two_providers)"
    by (simp add: ok_def json_response_def)
  have c: "body_json (json_response 200 two_providers) = Inr two_providers"
    by (simp add: json_response_def)
  from status_counts_match_response
         [of "answering (json_response 200 two_providers)" "[]" "json_response 200 two_providers"
             two_providers _ AuthStatus_init, OF a b c refl]
  show ?thesis by (simp add: two_providers_def)
qed

section \<open>The authorization URL\<close>

text \<open>
  C10. The authorization URL always carries \<open>code_challenge_method=S256\<close>. When
  \<open>generatePKCE\<close> throws and the fallback is used, the pair's method is \<open>plain\<close> and the
  \<open>code_challenge\<close> in the URL is the verifier itself, the 128 random characters, so the
  method the URL declares is not the one the challenge was derived by.
\<close>

theorem authorization_url_declares_S256:
  "searchParams_get (auth_url (getAuthorizationUrl method generatePKCE rnd))
     ''code_challenge_method'' = Some ''S256''
   \<and> pkce_method (safePKCEGenerate (Inl e) rnd) = ''plain''
   \<and> searchParams_get (auth_url (getAuthorizationUrl method (Inl e) rnd)) ''code_challenge''
       = Some (auth_verifier (getAuthorizationUrl method (Inl e) rnd))
   \<and> auth_verifier (getAuthorizationUrl method (Inl e) rnd) = generateRandomString rnd 128"
  by (simp add: getAuthorizationUrl_def searchParams_get_def searchParams_set_def
      safePKCEGenerate_def generatePKCEFallback_def Let_def)

end
